theory Spec2Isabelle
  imports Complex_Main "HOL-Library.Sublist" "HOL-Library.List_Lexorder"
begin

section \<open>The Linear Algebra tutor (app.py): a shallow embedding\<close>

text \<open>
  The program is one Python script: helpers that read PDF text, the quiz guard
  \<open>local_quiz_guard\<close>, the request builder and caller \<open>call_model\<close>, and the submit
  handler of the page.

  A Python \<open>str\<close> is a sequence of Unicode code points and is modelled as a list of
  natural numbers, \<open>len\<close> as \<open>length\<close>, a slice \<open>s[:k]\<close> as \<open>take k s\<close> and
  \<open>a in b\<close> as \<open>sublist a b\<close>. The literals of the program are written with \<open>ascii\<close>,
  their two non-ASCII characters (U+2019 and U+2014) as numbers.
\<close>

subsection \<open>Python string primitives\<close>

type_synonym str = "nat list"

definition ascii :: "string \<Rightarrow> str" where
  "ascii s = map of_char s"

text \<open>
  \<open>str.lower\<close> and \<open>str.strip\<close> consult the Unicode tables of the Python runtime,
  which are not part of the program. On ASCII code points their result is written out;
  beyond ASCII the tables are a parameter \<open>U\<close> of the model, and every property below is
  proved for every value of it:
  \<^item> \<open>to_lower_full c\<close>, the full lowercase mapping of the code point \<open>c\<close>: one to three
    code points, given as the first one and the rest;
  \<^item> \<open>final_sigma s i\<close>, whether the capital sigma at position \<open>i\<close> of \<open>s\<close> stands at
    the end of a word;
  \<^item> \<open>is_whitespace c\<close>, whether \<open>c\<close> is a whitespace code point.
\<close>

record unicode =
  to_lower_full :: "nat \<Rightarrow> nat \<times> nat list"
  final_sigma :: "str \<Rightarrow> nat \<Rightarrow> bool"
  is_whitespace :: "nat \<Rightarrow> bool"

text \<open>What \<open>str.lower\<close> writes for the code point at position \<open>i\<close> of \<open>s\<close>: the capital
  sigma (U+03A3, 931) becomes the final or the ordinary small sigma, every other code
  point its full lowercase mapping.\<close>

definition lower_at :: "unicode \<Rightarrow> str \<Rightarrow> nat \<Rightarrow> str" where
  "lower_at U s i =
     (let c = s ! i in
      if c < 128 then [if 65 \<le> c \<and> c \<le> 90 then c + 32 else c]
      else if c = 931 then [if final_sigma U s i then 962 else 963]
      else (case to_lower_full U c of (x, xs) \<Rightarrow> x # xs))"

definition py_lower :: "unicode \<Rightarrow> str \<Rightarrow> str" where
  "py_lower U s = concat (map (lower_at U s) [0..<length s])"

text \<open>\<open>str.isspace\<close> on one code point. The ASCII whitespace is tab, line feed, vertical
  tab, form feed, carriage return, the four separators \<open>0x1c\<close> to \<open>0x1f\<close>, and the
  space.\<close>

definition py_isspace :: "unicode \<Rightarrow> nat \<Rightarrow> bool" where
  "py_isspace U c =
     (if c < 128 then (9 \<le> c \<and> c \<le> 13) \<or> (28 \<le> c \<and> c \<le> 32) else is_whitespace U c)"

definition py_strip :: "unicode \<Rightarrow> str \<Rightarrow> str" where
  "py_strip U s = rev (dropWhile (py_isspace U) (rev (dropWhile (py_isspace U) s)))"

text \<open>\<open>sep.join(xs)\<close>.\<close>

fun py_join :: "str \<Rightarrow> str list \<Rightarrow> str" where
  "py_join sep [] = []"
| "py_join sep [x] = x"
| "py_join sep (x # y # ys) = x @ sep @ py_join sep (y # ys)"

subsection \<open>The arithmetic of \<open>int(0.4 * n)\<close>\<close>

text \<open>
  \<open>0.4 * len(tokens_q)\<close> is a product of IEEE binary64 numbers: the literal \<open>0.4\<close> is
  the double \<open>3602879701896397 / 2^53\<close>, the length is converted to a double, and the
  product is rounded to 53 significant bits, ties to even. \<open>int\<close> then truncates.
  All values are non-negative, so the computation is written over \<open>nat\<close>, with the
  product kept as a numerator over \<open>2^53\<close>. (Exponent overflow is out of reach: lengths are
  below \<open>2^63\<close>.)
\<close>

fun bitlen :: "nat \<Rightarrow> nat" where
  "bitlen n = (if n = 0 then 0 else Suc (bitlen (n div 2)))"

declare bitlen.simps [simp del]

text \<open>\<open>round_half_even m s\<close>: the integer nearest to \<open>m / 2^s\<close>, ties to even.\<close>

definition round_half_even :: "nat \<Rightarrow> nat \<Rightarrow> nat" where
  "round_half_even m s =
     (if s = 0 then m
      else (let q = m div 2 ^ s; r = m mod 2 ^ s; h = 2 ^ (s - 1) in
            if r < h then q else if h < r then q + 1
            else if even q then q else q + 1))"

text \<open>\<open>round53 m\<close>: \<open>m\<close> rounded to 53 significant bits.\<close>

definition round53 :: "nat \<Rightarrow> nat" where
  "round53 m = (let s = bitlen m - 53 in round_half_even m s * 2 ^ s)"

definition double_04 :: nat where
  "double_04 = 3602879701896397"

definition int_04_times :: "nat \<Rightarrow> nat" where
  "int_04_times n = round53 (double_04 * round53 n) div 2 ^ 53"

subsection \<open>The quiz guard\<close>

text \<open>The character class \<open>[a-z0-9^_]\<close>: the code points of \<open>a\<close> to \<open>z\<close> (97 to 122),
  of \<open>0\<close> to \<open>9\<close> (48 to 57), the caret (94) and the underscore (95).\<close>

definition token_char :: "nat \<Rightarrow> bool" where
  "token_char c = ((97 \<le> c \<and> c \<le> 122) \<or> (48 \<le> c \<and> c \<le> 57) \<or> c = 94 \<or> c = 95)"

text \<open>\<open>re.findall(r"[a-z0-9^_]+", s)\<close>: the maximal runs of class characters, from left
  to right. \<open>cur\<close> is the run being read.\<close>

fun findall_from :: "str \<Rightarrow> str \<Rightarrow> str list" where
  "findall_from cur [] = (if cur = [] then [] else [cur])"
| "findall_from cur (c # cs) =
     (if token_char c then findall_from (cur @ [c]) cs
      else (if cur = [] then [] else [cur]) @ findall_from [] cs)"

definition re_findall :: "str \<Rightarrow> str list" where
  "re_findall s = findall_from [] s"

text \<open>The question may be missing (\<open>None\<close>): \<open>(user_q or "")\<close> reads it as empty.\<close>

definition local_quiz_guard :: "unicode \<Rightarrow> str option \<Rightarrow> str \<Rightarrow> bool" where
  "local_quiz_guard U user_q quiz_text =
     (let q = py_lower U (case user_q of None \<Rightarrow> [] | Some s \<Rightarrow> s) in
      if q = [] \<or> quiz_text = [] then False
      else if sublist q (py_lower U quiz_text) then True
      else (let tokens_q = set (re_findall q);
                tokens_quiz = set (re_findall (py_lower U quiz_text));
                overlap = card (tokens_q \<inter> tokens_quiz)
            in max 8 (int_04_times (card tokens_q)) \<le> overlap))"

subsection \<open>The request to the generation service\<close>

record message =
  role :: str
  content :: str

text \<open>The keyword arguments of \<open>client.chat.completions.create\<close>. The temperature
  \<open>0.3\<close> is kept as the fraction \<open>3/10\<close>.\<close>

record request =
  model :: str
  messages :: "message list"
  temperature :: rat
  max_tokens :: nat

definition MODEL :: str where
  "MODEL = ascii ''gpt-4o''"

definition TEMPERATURE :: rat where
  "TEMPERATURE = 3 / 10"

definition MAX_TOKENS :: nat where
  "MAX_TOKENS = 900"

definition SYSTEM_INSTRUCTION :: str where
  "SYSTEM_INSTRUCTION =
     ascii ''You are a helpful Linear Algebra tutor for a university course. ''
     @ ascii ''Use ONLY the provided course material to explain concepts. ''
     @ ascii ''IMPORTANT: If the student'' @ [39]
     @ ascii ''s question is from the current quiz, ''
     @ ascii ''politely refuse without giving hints or answers.''"

definition COURSE_HEADER :: str where
  "COURSE_HEADER = ascii ''COURSE MATERIAL:'' @ [10]"

definition QUIZ_HEADER :: str where
  "QUIZ_HEADER =
     ascii ''QUIZ (for filtering ONLY '' @ [8212]
     @ ascii '' do not reveal or discuss this content):'' @ [10]"

definition NONE_PROVIDED :: str where
  "NONE_PROVIDED = ascii ''(none provided)''"

text \<open>The \<open>messages\<close> list of \<open>call_model\<close>.\<close>

definition build_messages :: "unicode \<Rightarrow> str \<Rightarrow> str \<Rightarrow> str \<Rightarrow> message list" where
  "build_messages U user_q course_text quiz_text =
     [\<lparr>role = ascii ''system'', content = SYSTEM_INSTRUCTION\<rparr>,
      \<lparr>role = ascii ''system'',
       content = COURSE_HEADER
         @ (if course_text \<noteq> [] then take 200000 course_text else NONE_PROVIDED)\<rparr>,
      \<lparr>role = ascii ''system'',
       content = QUIZ_HEADER
         @ (if quiz_text \<noteq> [] then take 100000 quiz_text else NONE_PROVIDED)\<rparr>,
      \<lparr>role = ascii ''user'', content = py_strip U user_q\<rparr>]"

text \<open>
  What the page and the network observe. The generation service is a parameter of the
  model: given the request it either raises (\<open>Inl\<close> of the exception's text) or returns
  the content of the first choice, which the client library types as optional.
\<close>

datatype event =
  Api_create request
| St_markdown str
| St_error str

type_synonym service = "request \<Rightarrow> str + str option"

definition NONE_STRIP_ERROR :: str where
  "NONE_STRIP_ERROR =
     [39] @ ascii ''NoneType'' @ [39] @ ascii '' object has no attribute ''
     @ [39] @ ascii ''strip'' @ [39]"

text \<open>\<open>call_model\<close> returns the events it caused and either the exception that left it
  or the stripped answer.\<close>

definition call_model ::
  "unicode \<Rightarrow> service \<Rightarrow> str \<Rightarrow> str \<Rightarrow> str \<Rightarrow> event list \<times> (str + str)" where
  "call_model U create user_q course_text quiz_text =
     (let req = \<lparr>model = MODEL,
                 messages = build_messages U user_q course_text quiz_text,
                 temperature = TEMPERATURE, max_tokens = MAX_TOKENS\<rparr>
      in ([Api_create req],
          (case create req of
             Inl e \<Rightarrow> Inl e
           | Inr None \<Rightarrow> Inl NONE_STRIP_ERROR
           | Inr (Some c) \<Rightarrow> Inr (py_strip U c))))"

subsection \<open>The submit handler\<close>

definition REFUSAL :: str where
  "REFUSAL =
     ascii ''Sorry, I can'' @ [8217]
     @ ascii ''t assist with questions from the current quiz. I''
     @ [8217] @ ascii ''m happy to help with other course topics.''"

text \<open>Lines 122 to 131: what one run of the page does with the button state and the
  text area's content.\<close>

definition submit_handler ::
  "unicode \<Rightarrow> service \<Rightarrow> bool \<Rightarrow> str \<Rightarrow> str \<Rightarrow> str \<Rightarrow> event list" where
  "submit_handler U create submit user_q course_text quiz_text =
     (if submit \<and> py_strip U user_q \<noteq> [] then
        (if local_quiz_guard U (Some user_q) quiz_text then [St_error REFUSAL]
         else (case call_model U create user_q course_text quiz_text of
                 (evs, Inr answer) \<Rightarrow> evs @ [St_markdown answer]
               | (evs, Inl e) \<Rightarrow> evs @ [St_error (ascii ''Error: '' @ e)]))
      else [])"

text \<open>The texts shown on the page, and the requests sent, in order.\<close>

fun displayed :: "event list \<Rightarrow> str list" where
  "displayed [] = []"
| "displayed (Api_create r # es) = displayed es"
| "displayed (St_markdown s # es) = s # displayed es"
| "displayed (St_error s # es) = s # displayed es"

fun api_calls :: "event list \<Rightarrow> request list" where
  "api_calls [] = []"
| "api_calls (Api_create r # es) = r # api_calls es"
| "api_calls (St_markdown s # es) = api_calls es"
| "api_calls (St_error s # es) = api_calls es"

subsection \<open>The corpus loader\<close>

text \<open>
  The file system and the PDF library are parameters: which paths exist, which are
  directories, what a directory lists (or the error of listing it), and what
  \<open>PdfReader(path)\<close> gives: an error, or the pages, each of which raises on
  \<open>extract_text()\<close> or returns an optional text. An exception is the text of its
  message. The memoisation of \<open>load_corpus\<close> by the page framework is left out: the
  function is modelled as one run of its body.
\<close>

record env =
  path_exists :: "str \<Rightarrow> bool"
  path_isdir :: "str \<Rightarrow> bool"
  listdir :: "str \<Rightarrow> str + str list"
  pdf_reader :: "str \<Rightarrow> str + (str + str option) list"

definition COURSE_PDF_DIR :: str where
  "COURSE_PDF_DIR = ascii ''pdfs''"

definition QUIZ_PDF_PATH :: str where
  "QUIZ_PDF_PATH = ascii ''quiz/current_quiz.pdf''"

text \<open>The loop over \<open>reader.pages\<close>: \<open>page.extract_text() or ""\<close> for each page; the
  first error leaves the loop.\<close>

fun extract_pages :: "(str + str option) list \<Rightarrow> str + str list" where
  "extract_pages [] = Inr []"
| "extract_pages (Inl e # ps) = Inl e"
| "extract_pages (Inr t # ps) =
     (case extract_pages ps of
        Inl e \<Rightarrow> Inl e
      | Inr ts \<Rightarrow> Inr ((case t of None \<Rightarrow> [] | Some s \<Rightarrow> s) # ts))"

definition extract_text_from_pdf :: "env \<Rightarrow> str \<Rightarrow> str + str" where
  "extract_text_from_pdf fs path =
     (if \<not> path_exists fs path then Inr []
      else (case pdf_reader fs path of
              Inl e \<Rightarrow> Inl e
            | Inr pages \<Rightarrow>
                (case extract_pages pages of
                   Inl e \<Rightarrow> Inl e
                 | Inr text \<Rightarrow> Inr (py_join [10] text))))"

text \<open>\<open>os.path.join\<close> of two components (POSIX); 47 is the slash.\<close>

definition path_join :: "str \<Rightarrow> str \<Rightarrow> str" where
  "path_join a b =
     (if b \<noteq> [] \<and> hd b = 47 then b
      else if a = [] \<or> last a = 47 then a @ b
      else a @ [47] @ b)"

definition file_header :: "str \<Rightarrow> str" where
  "file_header name = [10, 10] @ ascii ''--- FILE: '' @ name @ ascii '' ---'' @ [10]"

text \<open>The loop over the sorted names, with the buffer \<open>buf\<close>. \<open>sorted\<close> orders strings
  by their code points, as the lexicographic order on lists of numbers does.\<close>

fun folder_loop ::
  "unicode \<Rightarrow> env \<Rightarrow> str \<Rightarrow> str list \<Rightarrow> str list \<Rightarrow> str + str list" where
  "folder_loop U fs folder [] buf = Inr buf"
| "folder_loop U fs folder (name # names) buf =
     (if suffix (ascii ''.pdf'') (py_lower U name) then
        (case extract_text_from_pdf fs (path_join folder name) of
           Inl e \<Rightarrow> Inl e
         | Inr text \<Rightarrow> folder_loop U fs folder names (buf @ [file_header name, text]))
      else folder_loop U fs folder names buf)"

definition extract_texts_from_folder :: "unicode \<Rightarrow> env \<Rightarrow> str \<Rightarrow> str + str" where
  "extract_texts_from_folder U fs folder =
     (if \<not> path_isdir fs folder then Inr []
      else (case listdir fs folder of
              Inl e \<Rightarrow> Inl e
            | Inr names \<Rightarrow>
                (case folder_loop U fs folder (sort names) [] of
                   Inl e \<Rightarrow> Inl e
                 | Inr buf \<Rightarrow> Inr (py_join [10] buf))))"

definition load_corpus :: "unicode \<Rightarrow> env \<Rightarrow> str + (str \<times> str)" where
  "load_corpus U fs =
     (case extract_texts_from_folder U fs COURSE_PDF_DIR of
        Inl e \<Rightarrow> Inl e
      | Inr course_text \<Rightarrow>
          (case extract_text_from_pdf fs QUIZ_PDF_PATH of
             Inl e \<Rightarrow> Inl e
           | Inr quiz_text \<Rightarrow> Inr (course_text, quiz_text)))"

subsection \<open>Example environments\<close>

text \<open>
  An excerpt of the Unicode tables, for the examples: the lowercase mappings of the
  Latin-1 capitals, of the capital I with dot above (U+0130), of the Kelvin and Angstrom
  signs and of the Greek capitals, every other code point kept; the final-sigma rule
  for a sigma next to ASCII or Greek letters; and the whitespace code points beyond
  ASCII. The examples use only code points on which the excerpt agrees with the tables.
\<close>

definition cased_letter :: "nat \<Rightarrow> bool" where
  "cased_letter c =
     ((65 \<le> c \<and> c \<le> 90) \<or> (97 \<le> c \<and> c \<le> 122) \<or> (913 \<le> c \<and> c \<le> 969 \<and> c \<noteq> 930))"

definition example_tables :: unicode where
  "example_tables =
     \<lparr>to_lower_full =
        (\<lambda>c. if 192 \<le> c \<and> c \<le> 222 \<and> c \<noteq> 215 then (c + 32, [])
             else if c = 304 then (105, [775])
             else if 913 \<le> c \<and> c \<le> 939 \<and> c \<noteq> 930 then (c + 32, [])
             else if c = 8490 then (107, [])
             else if c = 8491 then (229, [])
             else (c, [])),
      final_sigma =
        (\<lambda>s i. 0 < i \<and> cased_letter (s ! (i - 1))
               \<and> \<not> (Suc i < length s \<and> cased_letter (s ! Suc i))),
      is_whitespace =
        (\<lambda>c. c = 133 \<or> c = 160 \<or> c = 5760 \<or> (8192 \<le> c \<and> c \<le> 8202) \<or> c = 8232
             \<or> c = 8233 \<or> c = 8239 \<or> c = 8287 \<or> c = 12288)\<rparr>"

text \<open>A file system whose course directory holds a PDF the library cannot open, a PDF
  whose second page fails on extraction, and a text file; there is no quiz file.\<close>

definition corrupt_course_env :: env where
  "corrupt_course_env =
     \<lparr>path_exists = (\<lambda>p. p = ascii ''pdfs'' \<or> p = ascii ''pdfs/a.pdf''
                          \<or> p = ascii ''pdfs/b.pdf'' \<or> p = ascii ''pdfs/readme.txt''),
      path_isdir = (\<lambda>p. p = ascii ''pdfs''),
      listdir = (\<lambda>p. if p = ascii ''pdfs''
                      then Inr [ascii ''b.pdf'', ascii ''readme.txt'', ascii ''a.pdf'']
                      else Inl (ascii ''NotADirectoryError'')),
      pdf_reader = (\<lambda>p. if p = ascii ''pdfs/b.pdf''
                         then Inr [Inr (Some (ascii ''Eigenvalues'')),
                                   Inl (ascii ''KeyError: /Contents'')]
                         else Inl (ascii ''PdfReadError: EOF marker not found''))\<rparr>"

text \<open>A file system with no course directory and a quiz file the library cannot
  open.\<close>

definition corrupt_quiz_env :: env where
  "corrupt_quiz_env =
     \<lparr>path_exists = (\<lambda>p. p = ascii ''quiz'' \<or> p = ascii ''quiz/current_quiz.pdf''),
      path_isdir = (\<lambda>p. p = ascii ''quiz''),
      listdir = (\<lambda>p. if p = ascii ''quiz'' then Inr [ascii ''current_quiz.pdf'']
                      else Inl (ascii ''FileNotFoundError'')),
      pdf_reader = (\<lambda>p. Inl (ascii ''PdfReadError: EOF marker not found''))\<rparr>"

text \<open>A file system with neither the course directory nor the quiz file.\<close>

definition empty_env :: env where
  "empty_env =
     \<lparr>path_exists = (\<lambda>p. False),
      path_isdir = (\<lambda>p. False),
      listdir = (\<lambda>p. Inl (ascii ''FileNotFoundError'')),
      pdf_reader = (\<lambda>p. Inl (ascii ''FileNotFoundError''))\<rparr>"

text \<open>A generation service that answers with the content of the third segment of the
  request it was sent, and one that answers with a fixed text.\<close>

definition echo_service :: service where
  "echo_service req = Inr (Some (content (messages req ! 2)))"

definition fixed_service :: service where
  "fixed_service req =
     Inr (Some (ascii ''An eigenvalue is a root of the characteristic polynomial.''))"

text \<open>Eight two-letter words, each beginning with the Kelvin sign (U+212A), which
  \<open>str.lower\<close> turns into the letter \<open>k\<close>; and the same letters without the sign.\<close>

definition kelvin_question :: str where
  "kelvin_question =
     [8490, 97, 32, 8490, 98, 32, 8490, 99, 32, 8490, 100, 32,
      8490, 101, 32, 8490, 102, 32, 8490, 103, 32, 8490, 104]"

definition letters_quiz :: str where
  "letters_quiz = ascii ''a b c d e f g h''"

text \<open>A question that begins with a no-break space (U+00A0) and a space and ends with
  an em space (U+2003).\<close>

definition spaced_question :: str where
  "spaced_question = [160, 32] @ ascii ''What is the rank of a matrix?'' @ [8195]"

text \<open>The request with the content of its third segment, the quiz segment, blanked.\<close>

definition blank_quiz_segment :: "request \<Rightarrow> request" where
  "blank_quiz_segment req =
     req\<lparr>messages := (messages req)[2 := (messages req ! 2)\<lparr>content := []\<rparr>]\<rparr>"

section \<open>Properties\<close>

subsection \<open>The double product agrees with the exact floor\<close>

lemma bitlen_le: "n < 2 ^ k \<Longrightarrow> bitlen n \<le> k"
proof (induction n arbitrary: k rule: bitlen.induct)
  case (1 n)
  show ?case
  proof (cases "n = 0")
    case True
    then show ?thesis by (simp add: bitlen.simps)
  next
    case False
    with 1(2) obtain j where k: "k = Suc j" by (cases k) auto
    with 1(2) have "n div 2 < 2 ^ j" by simp
    with 1(1) False have "bitlen (n div 2) \<le> j" by simp
    with False k show ?thesis by (subst bitlen.simps) simp
  qed
qed

lemma round53_small: "n < 2 ^ 53 \<Longrightarrow> round53 n = n"
  using bitlen_le [of n 53] by (simp add: round53_def round_half_even_def)

lemma round_half_even_lower: "m div 2 ^ s \<le> round_half_even m s"
  by (simp add: round_half_even_def Let_def)

lemma round_half_even_upper: "2 * (round_half_even m s * 2 ^ s) \<le> 2 * m + 2 ^ s"
proof (cases "s = 0")
  case True
  then show ?thesis by (simp add: round_half_even_def)
next
  case False
  define q where "q = m div 2 ^ s"
  define r where "r = m mod 2 ^ s"
  have m: "m = q * 2 ^ s + r" unfolding q_def r_def by (rule div_mult_mod_eq [symmetric])
  have h: "2 * 2 ^ (s - 1) = (2::nat) ^ s" using False by (cases s) auto
  have "round_half_even m s \<le> (if r < 2 ^ (s - 1) then q else q + 1)"
    using False by (simp add: round_half_even_def Let_def q_def r_def)
  then have "round_half_even m s * 2 ^ s \<le> (if r < 2 ^ (s - 1) then q else q + 1) * 2 ^ s"
    by (rule mult_le_mono1)
  moreover have "2 * ((if r < 2 ^ (s - 1) then q else q + 1) * 2 ^ s) \<le> 2 * m + 2 ^ s"
    using h by (auto simp: m algebra_simps)
  ultimately show ?thesis by linarith
qed

lemma int_04_times_floor:
  assumes n: "n < 2 ^ 50"
  shows "int_04_times n = (2 * n) div 5"
proof -
  define k where "k = (2 * n) div 5"
  define m where "m = double_04 * n"
  define s where "s = bitlen m - 53"
  define v where "v = round_half_even m s * 2 ^ s"
  have k1: "5 * k \<le> 2 * n" and k2: "2 * n \<le> 5 * k + 4" by (simp_all add: k_def)
  have m5: "5 * m = 18014398509481985 * n" by (simp add: m_def double_04_def)
  have "m < 2 ^ 102" using n m5 by simp
  then have "bitlen m \<le> 102" by (rule bitlen_le)
  then have s49: "s \<le> 49" by (simp add: s_def)
  then have "(2::nat) ^ s \<le> 2 ^ 49" by (rule power_increasing) simp
  with round_half_even_upper [of m s] have "2 * v \<le> 2 * m + 2 ^ 49" by (simp add: v_def)
  with m5 k2 n have upper: "v < (k + 1) * 2 ^ 53" by simp
  define a where "a = k * 2 ^ (53 - s)"
  define b where "b = (2::nat) ^ s"
  have b0: "0 < b" by (simp add: b_def)
  have "2 ^ (53 - s) * 2 ^ s = (2::nat) ^ 53"
    using s49 by (simp add: power_add [symmetric])
  then have ab: "a * b = k * 2 ^ 53" by (simp only: a_def b_def mult.assoc)
  have "k * 2 ^ 53 \<le> m" using m5 k1 by simp
  with ab have "a * b \<le> m" by simp
  with b0 have "a \<le> m div b" by (simp add: less_eq_div_iff_mult_less_eq)
  also have "\<dots> \<le> round_half_even m s" unfolding b_def by (rule round_half_even_lower)
  finally have "a * b \<le> round_half_even m s * b" by (rule mult_le_mono1)
  with ab have lower: "k * 2 ^ 53 \<le> v" by (simp add: v_def b_def)
  from lower upper have "v div 2 ^ 53 = k"
    by (simp add: div_nat_eqI)
  moreover have "round53 n = n" using n by (intro round53_small) simp
  ultimately show ?thesis
    by (simp add: int_04_times_def round53_def Let_def v_def s_def m_def k_def)
qed

subsection \<open>The quiz guard\<close>

lemma lower_at_not_Nil: "lower_at U s i \<noteq> []"
  by (simp add: lower_at_def Let_def split: prod.split)

lemma py_lower_Nil_iff: "py_lower U s = [] \<longleftrightarrow> s = []"
proof (cases s)
  case Nil
  then show ?thesis by (simp add: py_lower_def)
next
  case (Cons c cs)
  then have "0 < length s" by simp
  then have "[0..<length s] = 0 # [Suc 0..<length s]" by (rule upt_conv_Cons)
  then have "py_lower U s = lower_at U s 0 @ concat (map (lower_at U s) [Suc 0..<length s])"
    by (simp only: py_lower_def list.map concat.simps)
  then have "py_lower U s \<noteq> []" using lower_at_not_Nil [of U s 0] by simp
  with Cons show ?thesis by simp
qed

lemma overlap_le: "card (set xs \<inter> B) \<le> card (set xs)"
  by (rule card_mono) auto

lemma guard_low_overlap:
  "card (set (re_findall (py_lower U q)) \<inter> set (re_findall (py_lower U t))) < 8 \<Longrightarrow>
   \<not> sublist (py_lower U q) (py_lower U t) \<Longrightarrow> \<not> local_quiz_guard U (Some q) t"
  by (simp add: local_quiz_guard_def Let_def)

text \<open>
  C3. If the question is empty or the quiz text is empty, the guard returns false: with
  nothing to compare against, nothing is blocked.
\<close>

theorem guard_empty_false:
  "q = [] \<or> t = [] \<Longrightarrow> local_quiz_guard U (Some q) t = False"
  by (auto simp: local_quiz_guard_def py_lower_Nil_iff)

theorem guard_empty_false_witness:
  "(([]::str) = [] \<or> ascii ''rank of a matrix'' = [])
   \<and> local_quiz_guard example_tables (Some []) (ascii ''rank of a matrix'') = False
   \<and> (ascii ''rank'' = [] \<or> ([]::str) = [])
   \<and> local_quiz_guard example_tables (Some (ascii ''rank'')) [] = False"
proof -
  have h1: "([]::str) = [] \<or> ascii ''rank of a matrix'' = []" by simp
  have h2: "ascii ''rank'' = [] \<or> ([]::str) = []" by simp
  from guard_empty_false [OF h1] guard_empty_false [OF h2] h1 h2 show ?thesis by blast
qed

text \<open>
  C10. A missing question (\<open>None\<close>) is read as the empty string, and the guard returns
  false; no branch of the function fails on it.
\<close>

theorem guard_None_false: "local_quiz_guard U None t = False"
  by (simp add: local_quiz_guard_def py_lower_Nil_iff)

text \<open>
  C2. For a non-empty question and a non-empty quiz text, if the lowercased question
  occurs verbatim inside the lowercased quiz text, the guard returns true. The second
  example is the question \<open>EIGEN\<close> with an acute accent on its first letter (U+00C9),
  against the same word in small letters (U+00E9 first).
\<close>

theorem guard_substring_true:
  "q \<noteq> [] \<Longrightarrow> t \<noteq> [] \<Longrightarrow> sublist (py_lower U q) (py_lower U t) \<Longrightarrow>
   local_quiz_guard U (Some q) t = True"
  by (simp add: local_quiz_guard_def py_lower_Nil_iff)

theorem guard_substring_true_witness:
  "ascii ''what is the rank of a matrix'' \<noteq> []
   \<and> ascii ''Q1. What is the rank of a matrix A?'' \<noteq> []
   \<and> sublist (py_lower example_tables (ascii ''what is the rank of a matrix''))
        (py_lower example_tables (ascii ''Q1. What is the rank of a matrix A?''))
   \<and> local_quiz_guard example_tables (Some (ascii ''what is the rank of a matrix''))
        (ascii ''Q1. What is the rank of a matrix A?'') = True
   \<and> [201, 73, 71, 69, 78] \<noteq> ([]::str) \<and> [233, 105, 103, 101, 110] \<noteq> ([]::str)
   \<and> sublist (py_lower example_tables [201, 73, 71, 69, 78])
        (py_lower example_tables [233, 105, 103, 101, 110])
   \<and> local_quiz_guard example_tables (Some [201, 73, 71, 69, 78])
        [233, 105, 103, 101, 110] = True"
proof -
  have h1: "ascii ''what is the rank of a matrix'' \<noteq> []" by (simp add: ascii_def)
  have h2: "ascii ''Q1. What is the rank of a matrix A?'' \<noteq> []" by (simp add: ascii_def)
  have h3: "sublist (py_lower example_tables (ascii ''what is the rank of a matrix''))
        (py_lower example_tables (ascii ''Q1. What is the rank of a matrix A?''))"
    by code_simp
  have k1: "[201, 73, 71, 69, 78] \<noteq> ([]::str)" by simp
  have k2: "[233, 105, 103, 101, 110] \<noteq> ([]::str)" by simp
  have e1: "py_lower example_tables [201, 73, 71, 69, 78] = [233, 105, 103, 101, 110]"
    by (simp add: py_lower_def lower_at_def example_tables_def cased_letter_def)
  have e2: "py_lower example_tables [233, 105, 103, 101, 110] = [233, 105, 103, 101, 110]"
    by (simp add: py_lower_def lower_at_def example_tables_def cased_letter_def)
  have k3: "sublist (py_lower example_tables [201, 73, 71, 69, 78])
        (py_lower example_tables [233, 105, 103, 101, 110])"
    unfolding e1 e2 by simp
  from guard_substring_true [OF h1 h2 h3] guard_substring_true [OF k1 k2 k3] h1 h2 h3 k1 k2 k3
  show ?thesis by blast
qed

text \<open>
  C1. When the lowercased question is non-empty, the quiz text is non-empty and the
  lowercased question is not a substring of the lowercased quiz text, the guard returns
  true exactly when the number of distinct tokens shared by the two texts reaches
  \<open>max(8, int(0.4 * n))\<close>, \<open>n\<close> being the number of distinct tokens of the question.
  The code rounds down: whenever \<open>n\<close> is below \<open>2^50\<close> the double product truncates to
  the floor of \<open>0.4 * n\<close>, that is \<open>(2 * n) div 5\<close>. With 10 distinct tokens, 4 shared
  tokens give false and 8 shared tokens give true. In the last example the question's
  eight tokens begin with the Kelvin sign, lowered to \<open>k\<close>, and share nothing with the
  quiz text.
\<close>

theorem guard_token_threshold:
  assumes "py_lower U q \<noteq> []" and "t \<noteq> []"
    and "\<not> sublist (py_lower U q) (py_lower U t)"
  shows "(local_quiz_guard U (Some q) t \<longleftrightarrow>
            max 8 (int_04_times (card (set (re_findall (py_lower U q)))))
              \<le> card (set (re_findall (py_lower U q)) \<inter> set (re_findall (py_lower U t))))
       \<and> (card (set (re_findall (py_lower U q))) < 2 ^ 50 \<longrightarrow>
            (local_quiz_guard U (Some q) t \<longleftrightarrow>
               max 8 ((2 * card (set (re_findall (py_lower U q)))) div 5)
                 \<le> card (set (re_findall (py_lower U q))
                           \<inter> set (re_findall (py_lower U t)))))
       \<and> (card (set (re_findall (py_lower U q))) = 10
            \<and> card (set (re_findall (py_lower U q)) \<inter> set (re_findall (py_lower U t))) = 4
            \<longrightarrow> \<not> local_quiz_guard U (Some q) t)
       \<and> (card (set (re_findall (py_lower U q))) = 10
            \<and> card (set (re_findall (py_lower U q)) \<inter> set (re_findall (py_lower U t))) = 8
            \<longrightarrow> local_quiz_guard U (Some q) t)"
proof -
  let ?n = "card (set (re_findall (py_lower U q)))"
  let ?ov = "card (set (re_findall (py_lower U q)) \<inter> set (re_findall (py_lower U t)))"
  have g: "local_quiz_guard U (Some q) t \<longleftrightarrow> max 8 (int_04_times ?n) \<le> ?ov"
    using assms by (simp add: local_quiz_guard_def Let_def)
  have fl: "int_04_times ?n = (2 * ?n) div 5" if "?n < 2 ^ 50"
    using that by (rule int_04_times_floor)
  have ten: "int_04_times 10 = 4" using int_04_times_floor [of 10] by simp
  show ?thesis using g fl ten by auto
qed

theorem guard_token_threshold_witness:
  "py_lower example_tables (ascii ''A b c d e f g h i j'') \<noteq> []
   \<and> ascii ''a b c d e f g h'' \<noteq> [] \<and> ascii ''a b c d'' \<noteq> []
   \<and> \<not> sublist (py_lower example_tables (ascii ''A b c d e f g h i j''))
          (py_lower example_tables (ascii ''a b c d e f g h''))
   \<and> \<not> sublist (py_lower example_tables (ascii ''A b c d e f g h i j''))
          (py_lower example_tables (ascii ''a b c d''))
   \<and> card (set (re_findall (py_lower example_tables (ascii ''A b c d e f g h i j'')))) = 10
   \<and> card (set (re_findall (py_lower example_tables (ascii ''A b c d e f g h i j'')))
             \<inter> set (re_findall (py_lower example_tables (ascii ''a b c d e f g h'')))) = 8
   \<and> card (set (re_findall (py_lower example_tables (ascii ''A b c d e f g h i j'')))
             \<inter> set (re_findall (py_lower example_tables (ascii ''a b c d'')))) = 4
   \<and> local_quiz_guard example_tables (Some (ascii ''A b c d e f g h i j''))
        (ascii ''a b c d e f g h'')
   \<and> \<not> local_quiz_guard example_tables (Some (ascii ''A b c d e f g h i j''))
          (ascii ''a b c d'')
   \<and> py_lower example_tables kelvin_question \<noteq> [] \<and> letters_quiz \<noteq> []
   \<and> \<not> sublist (py_lower example_tables kelvin_question)
          (py_lower example_tables letters_quiz)
   \<and> card (set (re_findall (py_lower example_tables kelvin_question))) = 8
   \<and> card (set (re_findall (py_lower example_tables kelvin_question))
             \<inter> set (re_findall (py_lower example_tables letters_quiz))) = 0
   \<and> \<not> local_quiz_guard example_tables (Some kelvin_question) letters_quiz"
proof -
  let ?q = "ascii ''A b c d e f g h i j''"
  have h1: "py_lower example_tables ?q \<noteq> []" by (simp add: py_lower_Nil_iff ascii_def)
  have h2: "ascii ''a b c d e f g h'' \<noteq> []" by (simp add: ascii_def)
  have h2': "ascii ''a b c d'' \<noteq> []" by (simp add: ascii_def)
  have h3: "\<not> sublist (py_lower example_tables ?q)
              (py_lower example_tables (ascii ''a b c d e f g h''))"
    by code_simp
  have h3': "\<not> sublist (py_lower example_tables ?q)
               (py_lower example_tables (ascii ''a b c d''))"
    by code_simp
  have n: "card (set (re_findall (py_lower example_tables ?q))) = 10" by code_simp
  have o8: "card (set (re_findall (py_lower example_tables ?q))
             \<inter> set (re_findall (py_lower example_tables (ascii ''a b c d e f g h'')))) = 8"
    by code_simp
  have o4: "card (set (re_findall (py_lower example_tables ?q))
             \<inter> set (re_findall (py_lower example_tables (ascii ''a b c d'')))) = 4"
    by code_simp
  from guard_token_threshold [OF h1 h2 h3] n o8
  have a: "local_quiz_guard example_tables (Some ?q) (ascii ''a b c d e f g h'')" by blast
  from guard_token_threshold [OF h1 h2' h3'] n o4
  have b: "\<not> local_quiz_guard example_tables (Some ?q) (ascii ''a b c d'')" by blast
  have k1: "py_lower example_tables kelvin_question \<noteq> []"
    by (simp add: py_lower_Nil_iff kelvin_question_def)
  have k2: "letters_quiz \<noteq> []" by (simp add: letters_quiz_def ascii_def)
  have l1: "py_lower example_tables kelvin_question = ascii ''ka kb kc kd ke kf kg kh''"
    by (simp add: py_lower_def lower_at_def kelvin_question_def example_tables_def ascii_def)
  have l2: "py_lower example_tables letters_quiz = ascii ''a b c d e f g h''"
    by (simp add: letters_quiz_def) code_simp
  have k3: "\<not> sublist (py_lower example_tables kelvin_question)
              (py_lower example_tables letters_quiz)"
    unfolding l1 l2 by code_simp
  have kn: "card (set (re_findall (py_lower example_tables kelvin_question))) = 8"
    unfolding l1 by code_simp
  have ko: "card (set (re_findall (py_lower example_tables kelvin_question))
             \<inter> set (re_findall (py_lower example_tables letters_quiz))) = 0"
    unfolding l1 l2 by code_simp
  from guard_token_threshold [OF k1 k2 k3] kn ko
  have c: "\<not> local_quiz_guard example_tables (Some kelvin_question) letters_quiz" by simp
  from h1 h2 h2' h3 h3' n o8 o4 a b k1 k2 k3 kn ko c show ?thesis by blast
qed

text \<open>
  C9. A question with fewer than 8 distinct tokens whose lowercased form is not a
  substring of the lowercased quiz text is never blocked: the threshold is at least 8 and
  the overlap cannot exceed the number of question tokens. The second example is the
  letter \<open>a\<close> followed by a capital sigma (U+03A3), against the same two with the letter
  \<open>b\<close> appended: the sigma is lowered to its final form in the first and to its
  ordinary form in the second.
\<close>

theorem guard_short_question:
  "card (set (re_findall (py_lower U q))) < 8 \<Longrightarrow>
   \<not> sublist (py_lower U q) (py_lower U t) \<Longrightarrow>
   local_quiz_guard U (Some q) t = False"
  using overlap_le [of "re_findall (py_lower U q)" "set (re_findall (py_lower U t))"]
  by (simp add: local_quiz_guard_def Let_def)

theorem guard_short_question_witness:
  "card (set (re_findall (py_lower example_tables (ascii ''What is a pivot column?'')))) < 8
   \<and> \<not> sublist (py_lower example_tables (ascii ''What is a pivot column?''))
          (py_lower example_tables (ascii ''Q1. Find the pivot columns of A. What is a basis?''))
   \<and> local_quiz_guard example_tables (Some (ascii ''What is a pivot column?''))
        (ascii ''Q1. Find the pivot columns of A. What is a basis?'') = False
   \<and> card (set (re_findall (py_lower example_tables [97, 931]))) < 8
   \<and> \<not> sublist (py_lower example_tables [97, 931]) (py_lower example_tables [97, 931, 98])
   \<and> local_quiz_guard example_tables (Some [97, 931]) [97, 931, 98] = False"
proof -
  have h1: "card (set (re_findall (py_lower example_tables (ascii ''What is a pivot column?'')))) < 8"
    by code_simp
  have h2: "\<not> sublist (py_lower example_tables (ascii ''What is a pivot column?''))
          (py_lower example_tables (ascii ''Q1. Find the pivot columns of A. What is a basis?''))"
    by code_simp
  have s1: "py_lower example_tables [97, 931] = [97, 962]"
    by (simp add: py_lower_def lower_at_def example_tables_def cased_letter_def)
  have s2: "py_lower example_tables [97, 931, 98] = [97, 963, 98]"
    by (simp add: py_lower_def lower_at_def example_tables_def cased_letter_def)
  have k1: "card (set (re_findall (py_lower example_tables [97, 931]))) < 8"
    unfolding s1 by (simp add: re_findall_def token_char_def)
  have k2: "\<not> sublist (py_lower example_tables [97, 931])
              (py_lower example_tables [97, 931, 98])"
    unfolding s1 s2 by (simp add: sublist_Cons_right)
  from guard_short_question [OF h1 h2] guard_short_question [OF k1 k2] h1 h2 k1 k2
  show ?thesis by blast
qed

subsection \<open>The request builder\<close>

text \<open>
  C5. For every question, course text and quiz text the request has exactly four
  segments, in this order: the system instruction; the course material cut to at most
  200000 characters, or the placeholder when it is empty; the quiz material cut to at
  most 100000 characters under its "for filtering ONLY" header, or the same placeholder;
  the stripped question with the user role. The request is the same as the one built
  from the first 100000 characters of the quiz text, so nothing beyond that limit is in
  it. In the example the question is wrapped in whitespace beyond ASCII.
\<close>

theorem build_messages_segments:
  "length (build_messages U q c t) = 4
   \<and> map role (build_messages U q c t)
        = [ascii ''system'', ascii ''system'', ascii ''system'', ascii ''user'']
   \<and> content (build_messages U q c t ! 0) = SYSTEM_INSTRUCTION
   \<and> content (build_messages U q c t ! 1)
        = COURSE_HEADER @ (if c = [] then NONE_PROVIDED else take 200000 c)
   \<and> content (build_messages U q c t ! 2)
        = QUIZ_HEADER @ (if t = [] then NONE_PROVIDED else take 100000 t)
   \<and> content (build_messages U q c t ! 3) = py_strip U q
   \<and> length (take 200000 c) \<le> 200000
   \<and> length (take 100000 t) \<le> 100000
   \<and> length (content (build_messages U q c t ! 2)) \<le> length QUIZ_HEADER + 100000
   \<and> build_messages U q c t = build_messages U q c (take 100000 t)"
proof -
  have np: "length NONE_PROVIDED \<le> 100000" by (simp add: NONE_PROVIDED_def ascii_def)
  have e: "(take 100000 t = []) = (t = [])" by simp
  show ?thesis using np by (simp add: build_messages_def e)
qed

theorem build_messages_segments_witness:
  "map content (build_messages example_tables spaced_question []
                  (ascii ''Q1. Compute det A.''))
     = [SYSTEM_INSTRUCTION, COURSE_HEADER @ NONE_PROVIDED,
        QUIZ_HEADER @ ascii ''Q1. Compute det A.'', ascii ''What is the rank of a matrix?'']"
proof -
  let ?q = spaced_question
  let ?t = "ascii ''Q1. Compute det A.''"
  have s: "py_strip example_tables ?q = ascii ''What is the rank of a matrix?''"
    by (simp add: py_strip_def py_isspace_def spaced_question_def example_tables_def ascii_def)
  have t: "?t \<noteq> []" by (simp add: ascii_def)
  have l: "length (build_messages example_tables ?q [] ?t) = 4"
    using build_messages_segments by blast
  have m: "\<And>xs::message list. length xs = 4 \<Longrightarrow>
             map content xs = [content (xs ! 0), content (xs ! 1), content (xs ! 2), content (xs ! 3)]"
    by (auto simp: list_eq_iff_nth_eq nth_Cons' numeral_eq_Suc less_Suc_eq)
  have tk: "take 100000 ?t = ?t" by (simp add: ascii_def)
  show ?thesis
    using build_messages_segments [of example_tables ?q "[]" ?t] t
    by (simp add: m [OF l] s tk)
qed

subsection \<open>The submit handler\<close>

lemma api_calls_append: "api_calls (xs @ ys) = api_calls xs @ api_calls ys"
  by (induction xs rule: api_calls.induct) simp_all

lemma displayed_append: "displayed (xs @ ys) = displayed xs @ displayed ys"
  by (induction xs rule: displayed.induct) simp_all

lemma api_calls_handler:
  "api_calls (submit_handler U create submit q c t)
     = (if submit \<and> py_strip U q \<noteq> [] \<and> \<not> local_quiz_guard U (Some q) t
        then [\<lparr>model = MODEL, messages = build_messages U q c t,
               temperature = TEMPERATURE, max_tokens = MAX_TOKENS\<rparr>]
        else [])"
  by (simp add: submit_handler_def call_model_def Let_def api_calls_append
           split: sum.split option.split)

lemma displayed_handler:
  "displayed (submit_handler U create submit q c t)
     = (if submit \<and> py_strip U q \<noteq> [] then
          (if local_quiz_guard U (Some q) t then [REFUSAL]
           else [case create \<lparr>model = MODEL, messages = build_messages U q c t,
                               temperature = TEMPERATURE, max_tokens = MAX_TOKENS\<rparr> of
                   Inl e \<Rightarrow> ascii ''Error: '' @ e
                 | Inr None \<Rightarrow> ascii ''Error: '' @ NONE_STRIP_ERROR
                 | Inr (Some a) \<Rightarrow> py_strip U a])
        else [])"
  by (simp add: submit_handler_def call_model_def Let_def displayed_append
           split: sum.split option.split)

text \<open>
  C4. For every submitted question (the button pressed, the stripped text non-empty) on
  which the guard returns true, the page shows the fixed refusal and nothing else, and no
  request is sent to the generation service. A request is sent only when the guard
  returns false, and then it is the one built by \<open>call_model\<close>.
\<close>

theorem guard_refuses_without_api_call:
  "(submit \<and> py_strip U q \<noteq> [] \<and> local_quiz_guard U (Some q) t \<longrightarrow>
      submit_handler U create submit q c t = [St_error REFUSAL]
      \<and> displayed (submit_handler U create submit q c t) = [REFUSAL]
      \<and> api_calls (submit_handler U create submit q c t) = [])
   \<and> (api_calls (submit_handler U create submit q c t) \<noteq> [] \<longrightarrow>
        \<not> local_quiz_guard U (Some q) t)
   \<and> (submit \<and> py_strip U q \<noteq> [] \<and> \<not> local_quiz_guard U (Some q) t \<longrightarrow>
        api_calls (submit_handler U create submit q c t)
          = [\<lparr>model = MODEL, messages = build_messages U q c t,
               temperature = TEMPERATURE, max_tokens = MAX_TOKENS\<rparr>])"
  by (simp add: api_calls_handler) (simp add: submit_handler_def)

theorem guard_refuses_without_api_call_witness:
  "py_strip example_tables (ascii ''Compute the eigenvalues of [[2,0],[0,3]]'') \<noteq> []
   \<and> local_quiz_guard example_tables (Some (ascii ''Compute the eigenvalues of [[2,0],[0,3]]''))
        (ascii ''Compute the eigenvalues of [[2,0],[0,3]]'')
   \<and> submit_handler example_tables fixed_service True
        (ascii ''Compute the eigenvalues of [[2,0],[0,3]]'')
        (ascii ''Eigenvalues are roots of the characteristic polynomial'')
        (ascii ''Compute the eigenvalues of [[2,0],[0,3]]'') = [St_error REFUSAL]
   \<and> api_calls (submit_handler example_tables fixed_service True
        (ascii ''Compute the eigenvalues of [[2,0],[0,3]]'')
        (ascii ''Eigenvalues are roots of the characteristic polynomial'')
        (ascii ''Compute the eigenvalues of [[2,0],[0,3]]'')) = []
   \<and> py_strip example_tables (ascii ''What does it mean for a matrix to be diagonalizable?'')
        \<noteq> []
   \<and> \<not> local_quiz_guard example_tables
          (Some (ascii ''What does it mean for a matrix to be diagonalizable?''))
          (ascii ''Compute the eigenvalues of [[2,0],[0,3]]'')
   \<and> api_calls (submit_handler example_tables fixed_service True
        (ascii ''What does it mean for a matrix to be diagonalizable?'')
        (ascii ''Eigenvalues are roots of the characteristic polynomial'')
        (ascii ''Compute the eigenvalues of [[2,0],[0,3]]''))
      = [\<lparr>model = MODEL,
          messages = build_messages example_tables
            (ascii ''What does it mean for a matrix to be diagonalizable?'')
            (ascii ''Eigenvalues are roots of the characteristic polynomial'')
            (ascii ''Compute the eigenvalues of [[2,0],[0,3]]''),
          temperature = TEMPERATURE, max_tokens = MAX_TOKENS\<rparr>]"
proof -
  let ?quiz = "ascii ''Compute the eigenvalues of [[2,0],[0,3]]''"
  let ?course = "ascii ''Eigenvalues are roots of the characteristic polynomial''"
  let ?other = "ascii ''What does it mean for a matrix to be diagonalizable?''"
  have h1: "py_strip example_tables ?quiz \<noteq> []" by code_simp
  have h2: "local_quiz_guard example_tables (Some ?quiz) ?quiz"
  proof -
    have "?quiz \<noteq> []" by (simp add: ascii_def)
    then show ?thesis by (simp add: local_quiz_guard_def py_lower_Nil_iff)
  qed
  have h3: "py_strip example_tables ?other \<noteq> []" by code_simp
  have h4: "\<not> local_quiz_guard example_tables (Some ?other) ?quiz"
  proof (rule guard_low_overlap)
    show "card (set (re_findall (py_lower example_tables ?other))
            \<inter> set (re_findall (py_lower example_tables ?quiz))) < 8"
      by code_simp
    show "\<not> sublist (py_lower example_tables ?other) (py_lower example_tables ?quiz)"
      by code_simp
  qed
  note a = guard_refuses_without_api_call [of True example_tables ?quiz ?quiz fixed_service
      ?course]
  note b = guard_refuses_without_api_call [of True example_tables ?other ?quiz fixed_service
      ?course]
  from a b h1 h2 h3 h4 show ?thesis by blast
qed

subsection \<open>The corpus loader\<close>

lemma folder_loop_error:
  "name \<in> set names \<Longrightarrow> suffix (ascii ''.pdf'') (py_lower U name) \<Longrightarrow>
   extract_text_from_pdf fs (path_join folder name) = Inl e \<Longrightarrow>
   \<exists>e'. folder_loop U fs folder names buf = Inl e'"
proof (induction names arbitrary: buf)
  case Nil
  then show ?case by simp
next
  case (Cons n ns)
  show ?case
  proof (cases "n = name")
    case True
    with Cons.prems show ?thesis by simp
  next
    case False
    with Cons.prems have "name \<in> set ns" by simp
    from Cons.IH [OF this Cons.prems(2,3)] show ?thesis
      by (simp split: sum.split)
  qed
qed

lemma extract_pages_error: "Inl e \<in> set pages \<Longrightarrow> \<exists>e'. extract_pages pages = Inl e'"
  by (induction pages rule: extract_pages.induct) (auto split: sum.split)

text \<open>
  C6, as the specification states it: an error raised while a PDF is read is swallowed,
  the file counts as empty text, and loading goes on. The code has no handler around
  \<open>PdfReader\<close> or \<open>extract_text\<close>: with one course PDF that the library cannot open,
  \<open>load_corpus\<close> ends with that error.
\<close>

theorem load_corpus_corrupt_pdf_fails:
  "load_corpus example_tables corrupt_course_env
     = Inl (ascii ''PdfReadError: EOF marker not found'')"
  by code_simp

text \<open>
  C6, amended. A PDF path that does not exist contributes empty text. An error raised by
  \<open>PdfReader\<close>, or by \<open>extract_text\<close> on a page, is not caught: it leaves
  \<open>extract_text_from_pdf\<close>; when the file is a PDF of the course directory it leaves
  \<open>extract_texts_from_folder\<close>; and an error of either side leaves \<open>load_corpus\<close>.
\<close>

theorem extraction_errors_propagate:
  "(\<not> path_exists fs p \<longrightarrow> extract_text_from_pdf fs p = Inr [])
   \<and> (path_exists fs p \<and> pdf_reader fs p = Inl e \<longrightarrow> extract_text_from_pdf fs p = Inl e)
   \<and> (path_exists fs p \<and> pdf_reader fs p = Inr pages \<and> Inl e \<in> set pages \<longrightarrow>
        (\<exists>e'. extract_text_from_pdf fs p = Inl e'))
   \<and> (path_isdir fs d \<and> listdir fs d = Inr names \<and> name \<in> set names
        \<and> suffix (ascii ''.pdf'') (py_lower U name)
        \<and> extract_text_from_pdf fs (path_join d name) = Inl e \<longrightarrow>
        (\<exists>e'. extract_texts_from_folder U fs d = Inl e'))
   \<and> (extract_texts_from_folder U fs COURSE_PDF_DIR = Inl e \<longrightarrow> load_corpus U fs = Inl e)
   \<and> (extract_texts_from_folder U fs COURSE_PDF_DIR = Inr c
        \<and> extract_text_from_pdf fs QUIZ_PDF_PATH = Inl e \<longrightarrow> load_corpus U fs = Inl e)"
proof -
  have a: "\<not> path_exists fs p \<longrightarrow> extract_text_from_pdf fs p = Inr []"
    by (simp add: extract_text_from_pdf_def)
  have b: "path_exists fs p \<and> pdf_reader fs p = Inl e \<longrightarrow> extract_text_from_pdf fs p = Inl e"
    by (simp add: extract_text_from_pdf_def)
  have c: "path_exists fs p \<and> pdf_reader fs p = Inr pages \<and> Inl e \<in> set pages \<longrightarrow>
        (\<exists>e'. extract_text_from_pdf fs p = Inl e')"
    using extract_pages_error [of e pages] by (auto simp: extract_text_from_pdf_def)
  have d: "path_isdir fs d \<and> listdir fs d = Inr names \<and> name \<in> set names
        \<and> suffix (ascii ''.pdf'') (py_lower U name)
        \<and> extract_text_from_pdf fs (path_join d name) = Inl e \<longrightarrow>
        (\<exists>e'. extract_texts_from_folder U fs d = Inl e')"
  proof (intro impI, elim conjE)
    assume h: "path_isdir fs d" "listdir fs d = Inr names" "name \<in> set names"
      "suffix (ascii ''.pdf'') (py_lower U name)"
      "extract_text_from_pdf fs (path_join d name) = Inl e"
    from h(3) have "name \<in> set (sort names)" by simp
    from folder_loop_error [OF this h(4,5)]
    obtain e' where "folder_loop U fs d (sort names) [] = Inl e'" by blast
    with h(1,2) show "\<exists>e'. extract_texts_from_folder U fs d = Inl e'"
      by (simp add: extract_texts_from_folder_def)
  qed
  have e: "extract_texts_from_folder U fs COURSE_PDF_DIR = Inl e \<longrightarrow> load_corpus U fs = Inl e"
    by (simp add: load_corpus_def)
  have f: "extract_texts_from_folder U fs COURSE_PDF_DIR = Inr c
        \<and> extract_text_from_pdf fs QUIZ_PDF_PATH = Inl e \<longrightarrow> load_corpus U fs = Inl e"
    by (simp add: load_corpus_def)
  from a b c d e f show ?thesis by blast
qed

theorem extraction_errors_propagate_witness:
  "\<not> path_exists corrupt_course_env QUIZ_PDF_PATH
   \<and> extract_text_from_pdf corrupt_course_env QUIZ_PDF_PATH = Inr []
   \<and> path_exists corrupt_course_env (ascii ''pdfs/a.pdf'')
   \<and> pdf_reader corrupt_course_env (ascii ''pdfs/a.pdf'')
        = Inl (ascii ''PdfReadError: EOF marker not found'')
   \<and> extract_text_from_pdf corrupt_course_env (ascii ''pdfs/a.pdf'')
        = Inl (ascii ''PdfReadError: EOF marker not found'')
   \<and> path_exists corrupt_course_env (ascii ''pdfs/b.pdf'')
   \<and> pdf_reader corrupt_course_env (ascii ''pdfs/b.pdf'')
        = Inr [Inr (Some (ascii ''Eigenvalues'')), Inl (ascii ''KeyError: /Contents'')]
   \<and> Inl (ascii ''KeyError: /Contents'')
        \<in> set [Inr (Some (ascii ''Eigenvalues'')), Inl (ascii ''KeyError: /Contents'')]
   \<and> (\<exists>e'. extract_text_from_pdf corrupt_course_env (ascii ''pdfs/b.pdf'') = Inl e')
   \<and> path_isdir corrupt_course_env COURSE_PDF_DIR
   \<and> listdir corrupt_course_env COURSE_PDF_DIR
        = Inr [ascii ''b.pdf'', ascii ''readme.txt'', ascii ''a.pdf'']
   \<and> suffix (ascii ''.pdf'') (py_lower example_tables (ascii ''a.pdf''))
   \<and> path_join COURSE_PDF_DIR (ascii ''a.pdf'') = ascii ''pdfs/a.pdf''
   \<and> (\<exists>e'. extract_texts_from_folder example_tables corrupt_course_env COURSE_PDF_DIR
               = Inl e')
   \<and> (\<exists>e'. load_corpus example_tables corrupt_course_env = Inl e')
   \<and> extract_texts_from_folder example_tables corrupt_quiz_env COURSE_PDF_DIR = Inr []
   \<and> extract_text_from_pdf corrupt_quiz_env QUIZ_PDF_PATH
        = Inl (ascii ''PdfReadError: EOF marker not found'')
   \<and> load_corpus example_tables corrupt_quiz_env
        = Inl (ascii ''PdfReadError: EOF marker not found'')"
proof -
  let ?E = "ascii ''PdfReadError: EOF marker not found''"
  let ?K = "ascii ''KeyError: /Contents''"
  let ?pages = "[Inr (Some (ascii ''Eigenvalues'')), Inl ?K]"
  let ?names = "[ascii ''b.pdf'', ascii ''readme.txt'', ascii ''a.pdf'']"
  let ?U = example_tables
  have q1: "\<not> path_exists corrupt_course_env QUIZ_PDF_PATH" by code_simp
  have a1: "path_exists corrupt_course_env (ascii ''pdfs/a.pdf'')" by code_simp
  have a2: "pdf_reader corrupt_course_env (ascii ''pdfs/a.pdf'') = Inl ?E" by code_simp
  have b1: "path_exists corrupt_course_env (ascii ''pdfs/b.pdf'')" by code_simp
  have b2: "pdf_reader corrupt_course_env (ascii ''pdfs/b.pdf'') = Inr ?pages" by code_simp
  have b3: "Inl ?K \<in> set ?pages" by simp
  have d1: "path_isdir corrupt_course_env COURSE_PDF_DIR" by code_simp
  have d2: "listdir corrupt_course_env COURSE_PDF_DIR = Inr ?names" by code_simp
  have d3: "ascii ''a.pdf'' \<in> set ?names" by simp
  have d4: "suffix (ascii ''.pdf'') (py_lower ?U (ascii ''a.pdf''))" by code_simp
  have d5: "path_join COURSE_PDF_DIR (ascii ''a.pdf'') = ascii ''pdfs/a.pdf''" by code_simp
  have z1: "extract_texts_from_folder ?U corrupt_quiz_env COURSE_PDF_DIR = Inr []"
    by code_simp
  have z2: "extract_text_from_pdf corrupt_quiz_env QUIZ_PDF_PATH = Inl ?E" by code_simp
  note t1 = extraction_errors_propagate [of corrupt_course_env QUIZ_PDF_PATH]
  note t2 = extraction_errors_propagate [of corrupt_course_env "ascii ''pdfs/a.pdf''" ?E]
  note t3 = extraction_errors_propagate [of corrupt_course_env "ascii ''pdfs/b.pdf''" ?K ?pages]
  have c1: "extract_text_from_pdf corrupt_course_env QUIZ_PDF_PATH = Inr []"
    using t1 q1 by blast
  have c2: "extract_text_from_pdf corrupt_course_env (ascii ''pdfs/a.pdf'') = Inl ?E"
    using t2 a1 a2 by blast
  have c3: "\<exists>e'. extract_text_from_pdf corrupt_course_env (ascii ''pdfs/b.pdf'') = Inl e'"
    using t3 b1 b2 b3 by blast
  from c2 d5
  have c2': "extract_text_from_pdf corrupt_course_env (path_join COURSE_PDF_DIR (ascii ''a.pdf''))
               = Inl ?E"
    by simp
  note t4 = extraction_errors_propagate [of corrupt_course_env _ ?E _ COURSE_PDF_DIR ?names
      "ascii ''a.pdf''" ?U]
  have c4: "\<exists>e'. extract_texts_from_folder ?U corrupt_course_env COURSE_PDF_DIR = Inl e'"
    using t4 d1 d2 d3 d4 c2' by blast
  then obtain e' where e': "extract_texts_from_folder ?U corrupt_course_env COURSE_PDF_DIR = Inl e'"
    by blast
  note t5 = extraction_errors_propagate [of corrupt_course_env _ e' _ _ _ _ ?U]
  have c5: "\<exists>e'. load_corpus ?U corrupt_course_env = Inl e'" using t5 e' by blast
  note t6 = extraction_errors_propagate [of corrupt_quiz_env _ ?E _ _ _ _ ?U "[]"]
  have c6: "load_corpus ?U corrupt_quiz_env = Inl ?E" using t6 z1 z2 by blast
  from q1 a1 a2 b1 b2 b3 d1 d2 d4 d5 z1 z2 c1 c2 c3 c4 c5 c6 show ?thesis by blast
qed

text \<open>
  C7, as the specification states it: if the course directory does not exist,
  \<open>load_corpus\<close> returns an empty course string without raising. With no course
  directory and a quiz file that the PDF library cannot open, \<open>load_corpus\<close> ends with
  the library's error: nothing is returned.
\<close>

theorem load_corpus_missing_dir_fails:
  "\<not> path_isdir corrupt_quiz_env COURSE_PDF_DIR
   \<and> load_corpus example_tables corrupt_quiz_env
        = Inl (ascii ''PdfReadError: EOF marker not found'')"
  by code_simp

text \<open>
  C7, amended. Each side on its own: if the course directory does not exist, the course
  side is the empty string and does not raise, and if the quiz file does not exist, the
  quiz side is the empty string and does not raise. \<open>load_corpus\<close> then returns the pair
  with that empty string when the other side returns, and ends with the other side's
  error when the other side raises; with both paths missing it returns two empty strings.
\<close>

theorem missing_paths_give_empty_text:
  "(\<not> path_isdir fs COURSE_PDF_DIR \<longrightarrow>
      extract_texts_from_folder U fs COURSE_PDF_DIR = Inr []
      \<and> load_corpus U fs = (case extract_text_from_pdf fs QUIZ_PDF_PATH of
                              Inl e \<Rightarrow> Inl e | Inr quiz_text \<Rightarrow> Inr ([], quiz_text)))
   \<and> (\<not> path_exists fs QUIZ_PDF_PATH \<longrightarrow>
        extract_text_from_pdf fs QUIZ_PDF_PATH = Inr []
        \<and> load_corpus U fs = (case extract_texts_from_folder U fs COURSE_PDF_DIR of
                                Inl e \<Rightarrow> Inl e | Inr course_text \<Rightarrow> Inr (course_text, [])))
   \<and> (\<not> path_isdir fs COURSE_PDF_DIR \<and> \<not> path_exists fs QUIZ_PDF_PATH \<longrightarrow>
        load_corpus U fs = Inr ([], []))"
proof -
  have course: "extract_texts_from_folder U fs COURSE_PDF_DIR = Inr []"
    if "\<not> path_isdir fs COURSE_PDF_DIR"
    using that by (simp add: extract_texts_from_folder_def)
  have quiz: "extract_text_from_pdf fs QUIZ_PDF_PATH = Inr []"
    if "\<not> path_exists fs QUIZ_PDF_PATH"
    using that by (simp add: extract_text_from_pdf_def)
  show ?thesis
    by (auto simp: load_corpus_def course quiz split: sum.split)
qed

theorem missing_paths_give_empty_text_witness:
  "\<not> path_isdir empty_env COURSE_PDF_DIR \<and> \<not> path_exists empty_env QUIZ_PDF_PATH
   \<and> extract_texts_from_folder example_tables empty_env COURSE_PDF_DIR = Inr []
   \<and> extract_text_from_pdf empty_env QUIZ_PDF_PATH = Inr []
   \<and> load_corpus example_tables empty_env = Inr ([], [])
   \<and> \<not> path_exists corrupt_course_env QUIZ_PDF_PATH
   \<and> extract_text_from_pdf corrupt_course_env QUIZ_PDF_PATH = Inr []
   \<and> \<not> path_isdir corrupt_quiz_env COURSE_PDF_DIR
   \<and> extract_texts_from_folder example_tables corrupt_quiz_env COURSE_PDF_DIR = Inr []"
proof -
  have h1: "\<not> path_isdir empty_env COURSE_PDF_DIR" by (simp add: empty_env_def)
  have h2: "\<not> path_exists empty_env QUIZ_PDF_PATH" by (simp add: empty_env_def)
  have h3: "\<not> path_exists corrupt_course_env QUIZ_PDF_PATH" by code_simp
  have h4: "\<not> path_isdir corrupt_quiz_env COURSE_PDF_DIR" by code_simp
  from missing_paths_give_empty_text [of empty_env example_tables]
    missing_paths_give_empty_text [of corrupt_course_env example_tables]
    missing_paths_give_empty_text [of corrupt_quiz_env example_tables] h1 h2 h3 h4
  show ?thesis by blast
qed

subsection \<open>Where the quiz text goes\<close>

lemma blank_quiz_segment_build:
  "blank_quiz_segment \<lparr>model = MODEL, messages = build_messages U q c t,
                        temperature = TEMPERATURE, max_tokens = MAX_TOKENS\<rparr>
   = blank_quiz_segment \<lparr>model = MODEL, messages = build_messages U q c t',
                          temperature = TEMPERATURE, max_tokens = MAX_TOKENS\<rparr>"
  by (simp add: blank_quiz_segment_def build_messages_def)

text \<open>
  C8, as the specification states it: the quiz text is never part of a text shown to the
  user. The handler shows the service's answer as it comes, and the request carries the
  quiz text: with a service that answers with the third segment of its request, the page
  shows the quiz text.
\<close>

theorem echo_service_shows_quiz_text:
  "displayed (submit_handler example_tables echo_service True
                (ascii ''What is a determinant?'') []
                (ascii ''Q1. Show that det(AB) = det(A) det(B).''))
     = [QUIZ_HEADER @ ascii ''Q1. Show that det(AB) = det(A) det(B).'']
   \<and> sublist (ascii ''Q1. Show that det(AB) = det(A) det(B).'')
        (concat (displayed (submit_handler example_tables echo_service True
                   (ascii ''What is a determinant?'') []
                   (ascii ''Q1. Show that det(AB) = det(A) det(B).''))))"
proof -
  let ?q = "ascii ''What is a determinant?''"
  let ?t = "ascii ''Q1. Show that det(AB) = det(A) det(B).''"
  let ?U = example_tables
  have g: "\<not> local_quiz_guard ?U (Some ?q) ?t"
  proof (rule guard_low_overlap)
    show "card (set (re_findall (py_lower ?U ?q)) \<inter> set (re_findall (py_lower ?U ?t))) < 8"
      by code_simp
    show "\<not> sublist (py_lower ?U ?q) (py_lower ?U ?t)"
      by code_simp
  qed
  have s: "py_strip ?U ?q \<noteq> []" by code_simp
  have tn: "?t \<noteq> []" by (simp add: ascii_def)
  have tk: "take 100000 ?t = ?t" by (simp add: ascii_def)
  have e: "echo_service \<lparr>model = MODEL, messages = build_messages ?U ?q [] ?t,
             temperature = TEMPERATURE, max_tokens = MAX_TOKENS\<rparr>
           = Inr (Some (QUIZ_HEADER @ ?t))"
    using tn by (simp add: echo_service_def build_messages_def tk)
  have a: "py_strip ?U (QUIZ_HEADER @ ?t) = QUIZ_HEADER @ ?t"
    by code_simp
  have d: "displayed (submit_handler ?U echo_service True ?q [] ?t) = [QUIZ_HEADER @ ?t]"
    unfolding displayed_handler using g s
    by (simp only: e a if_True if_False simp_thms sum.case option.case)
  have "sublist ?t (QUIZ_HEADER @ ?t)"
    by (rule suffix_imp_sublist) (simp add: suffix_def)
  with d show ?thesis by simp
qed

text \<open>
  C8, amended. The handler itself never copies the quiz text into what it shows: the text
  shown is the fixed refusal when the guard blocks, and otherwise the service's stripped
  answer, or \<open>Error:\<close> followed by the text of the error. The quiz text is used by the
  guard and placed in the third segment of the request, nowhere else. So for a service
  whose reply does not depend on the content of that segment, two quiz texts with the same
  guard verdict give the same text on the page.
\<close>

theorem displayed_text_and_quiz:
  "displayed (submit_handler U create submit q c t)
     = (if submit \<and> py_strip U q \<noteq> [] then
          (if local_quiz_guard U (Some q) t then [REFUSAL]
           else [case create \<lparr>model = MODEL, messages = build_messages U q c t,
                               temperature = TEMPERATURE, max_tokens = MAX_TOKENS\<rparr> of
                   Inl e \<Rightarrow> ascii ''Error: '' @ e
                 | Inr None \<Rightarrow> ascii ''Error: '' @ NONE_STRIP_ERROR
                 | Inr (Some a) \<Rightarrow> py_strip U a])
        else [])
   \<and> ((\<forall>r. create r = create (blank_quiz_segment r))
        \<and> local_quiz_guard U (Some q) t = local_quiz_guard U (Some q) t' \<longrightarrow>
        displayed (submit_handler U create submit q c t)
          = displayed (submit_handler U create submit q c t'))"
proof -
  let ?req = "\<lambda>t. \<lparr>model = MODEL, messages = build_messages U q c t,
                    temperature = TEMPERATURE, max_tokens = MAX_TOKENS\<rparr>"
  have same: "create (?req t) = create (?req t')"
    if "\<forall>r. create r = create (blank_quiz_segment r)"
  proof -
    from that have "create (?req t) = create (blank_quiz_segment (?req t))" by blast
    also have "\<dots> = create (blank_quiz_segment (?req t'))"
      by (simp only: blank_quiz_segment_build [of U q c t t'])
    also from that have "\<dots> = create (?req t')" by simp
    finally show ?thesis .
  qed
  have second: "displayed (submit_handler U create submit q c t)
          = displayed (submit_handler U create submit q c t')"
    if "\<forall>r. create r = create (blank_quiz_segment r)"
      and "local_quiz_guard U (Some q) t = local_quiz_guard U (Some q) t'"
    using same [OF that(1)] that(2) by (simp add: displayed_handler)
  from displayed_handler [of U create submit q c t] second show ?thesis by blast
qed

theorem displayed_text_and_quiz_witness:
  "(\<forall>r. fixed_service r = fixed_service (blank_quiz_segment r))
   \<and> local_quiz_guard example_tables (Some (ascii ''What is a determinant?''))
        (ascii ''Q1. Show that det(AB) = det(A) det(B).'')
      = local_quiz_guard example_tables (Some (ascii ''What is a determinant?''))
          (ascii ''Q1. Find the rank of A.'')
   \<and> displayed (submit_handler example_tables fixed_service True
                  (ascii ''What is a determinant?'') []
                  (ascii ''Q1. Show that det(AB) = det(A) det(B).''))
      = displayed (submit_handler example_tables fixed_service True
                  (ascii ''What is a determinant?'') [] (ascii ''Q1. Find the rank of A.''))"
proof -
  let ?q = "ascii ''What is a determinant?''"
  let ?t = "ascii ''Q1. Show that det(AB) = det(A) det(B).''"
  let ?t' = "ascii ''Q1. Find the rank of A.''"
  let ?U = example_tables
  have h1: "\<forall>r. fixed_service r = fixed_service (blank_quiz_segment r)"
    by (simp add: fixed_service_def)
  have g1: "\<not> local_quiz_guard ?U (Some ?q) ?t"
  proof (rule guard_low_overlap)
    show "card (set (re_findall (py_lower ?U ?q)) \<inter> set (re_findall (py_lower ?U ?t))) < 8"
      by code_simp
    show "\<not> sublist (py_lower ?U ?q) (py_lower ?U ?t)"
      by code_simp
  qed
  have g2: "\<not> local_quiz_guard ?U (Some ?q) ?t'"
  proof (rule guard_low_overlap)
    show "card (set (re_findall (py_lower ?U ?q)) \<inter> set (re_findall (py_lower ?U ?t'))) < 8"
      by code_simp
    show "\<not> sublist (py_lower ?U ?q) (py_lower ?U ?t')"
      by code_simp
  qed
  from g1 g2 have h2: "local_quiz_guard ?U (Some ?q) ?t = local_quiz_guard ?U (Some ?q) ?t'"
    by simp
  from displayed_text_and_quiz [of ?U fixed_service True ?q "[]" ?t ?t'] h1 h2
  show ?thesis by blast
qed

end
